theory Spec2Isabelle
  imports Main
begin

section \<open>The memory store and its tool dispatcher (memory_mcp/server.py)\<close>

text \<open>
  The program keeps one SQLite table \<^verbatim>\<open>memories\<close> behind the class
  \<^verbatim>\<open>DatabaseManager\<close> and exposes five tools through
  \<^verbatim>\<open>handle_call_tool\<close>. The embedding passes the state explicitly: every
  method takes the database handle and returns it updated. What a method reads from its
  environment (the clock, and the row ids the engine draws when the largest row id is
  taken) is a parameter. An exception is a value: a store method returns
  \<open>Inl e\<close> where the Python raises \<open>e\<close>.
\<close>

subsection \<open>Data\<close>

text \<open>
  One row of the table
  \<^verbatim>\<open>memories (id INTEGER PRIMARY KEY, title TEXT NOT NULL, content TEXT NOT NULL,
  created_at TIMESTAMP NOT NULL, updated_at TIMESTAMP NOT NULL)\<close>.
  The column \<^verbatim>\<open>id\<close> is named \<open>row_id\<close> here. Timestamps are the strings
  that \<^verbatim>\<open>datetime.datetime.now().isoformat()\<close> produced.
\<close>

record memory_row =
  row_id :: int
  title :: string
  content :: string
  created_at :: string
  updated_at :: string

text \<open>
  The handle \<^verbatim>\<open>db\<close>: \<open>conn\<close> says whether \<^verbatim>\<open>self.conn\<close> holds an open
  connection, \<open>memories\<close> is the table in the file, its rows in the order a scan of the
  table yields them (ascending row id).
\<close>

record database =
  conn :: bool
  memories :: "memory_row list"

text \<open>
  What a call reads from outside: \<open>now\<close> is the string
  \<^verbatim>\<open>datetime.datetime.now().isoformat()\<close> returns during the call;
  \<open>rowid_candidates\<close> are the row ids the engine draws at random, in order, when the
  largest row id of the table is already the largest 64-bit integer.
\<close>

record env =
  now :: string
  rowid_candidates :: "int list"

text \<open>The exceptions that occur, each with its message (\<^verbatim>\<open>str(e)\<close>).\<close>

datatype exn =
  ValueError string
| TypeError string
| OverflowError string
| OperationalError string

fun str_exn :: "exn \<Rightarrow> string" where
  "str_exn (ValueError m) = m"
| "str_exn (TypeError m) = m"
| "str_exn (OverflowError m) = m"
| "str_exn (OperationalError m) = m"

text \<open>
  The handler does two things with the value under the key \<^verbatim>\<open>memory_id\<close>: it
  tests it against \<^verbatim>\<open>None\<close> and it applies \<^verbatim>\<open>int\<close> to it. A value other
  than \<^verbatim>\<open>None\<close> is therefore given by what \<^verbatim>\<open>int\<close> makes of it:
  \<open>IntValue n\<close> is a value that \<^verbatim>\<open>int\<close> turns into \<open>n\<close> (the integer
  \<open>n\<close> itself, or a string of its digits), \<open>Unconvertible e\<close> is a value on which
  \<^verbatim>\<open>int\<close> raises \<open>e\<close> (the string \<^verbatim>\<open>"abc"\<close>, a list). Python's
  \<^verbatim>\<open>None\<close>, which a JSON null becomes, is \<open>None\<close>, and
  \<^verbatim>\<open>int(None)\<close> raises \<^verbatim>\<open>TypeError\<close> (with the message of CPython 3.10
  and later; no property below depends on it).
\<close>

datatype py_value = IntValue int | Unconvertible exn

definition py_int :: "py_value option \<Rightarrow> exn + int" where
  "py_int v =
     (case v of
        None \<Rightarrow>
          Inl (TypeError (''int() argument must be a string, a bytes-like object or a real ''
                          @ ''number, not '' @ [CHR 0x27] @ ''NoneType'' @ [CHR 0x27]))
      | Some (IntValue n) \<Rightarrow> Inr n
      | Some (Unconvertible err) \<Rightarrow> Inl err)"

text \<open>
  The argument mapping of a tool call. Each of the three keys is present (\<open>Some\<close>) or
  not a key of the mapping (\<open>None\<close>); \<^verbatim>\<open>memory_id\<close> holds a value as above,
  \<^verbatim>\<open>title\<close> and \<^verbatim>\<open>content\<close> hold strings; \<open>arg_others\<close> lists the keys
  of the mapping other than these three. The handler receives
  \<^verbatim>\<open>arguments: dict | None\<close>, so a call carries an \<open>arguments option\<close>.
\<close>

record arguments =
  arg_memory_id :: "py_value option option"
  arg_title :: "string option"
  arg_content :: "string option"
  arg_others :: "string list"

definition no_arguments :: arguments where
  "no_arguments = \<lparr>arg_memory_id = None, arg_title = None, arg_content = None, arg_others = []\<rparr>"

text \<open>Python's \<^verbatim>\<open>not arguments\<close>: the mapping is \<^verbatim>\<open>None\<close> or has no key.\<close>

definition not_arguments :: "arguments option \<Rightarrow> bool" where
  "not_arguments a =
     (case a of
        None \<Rightarrow> True
      | Some d \<Rightarrow> arg_memory_id d = None \<and> arg_title d = None \<and> arg_content d = None
                  \<and> arg_others d = [])"

text \<open>
  The membership tests \<^verbatim>\<open>"title" in arguments\<close>, \<^verbatim>\<open>"content" in arguments\<close>
  and \<^verbatim>\<open>"memory_id" in arguments\<close>; the handler evaluates them only after
  \<^verbatim>\<open>not arguments\<close> was false, and an absent mapping supplies no key.
\<close>

definition supplied_title :: "arguments option \<Rightarrow> bool" where
  "supplied_title args = (case args of None \<Rightarrow> False | Some a \<Rightarrow> arg_title a \<noteq> None)"

definition supplied_content :: "arguments option \<Rightarrow> bool" where
  "supplied_content args = (case args of None \<Rightarrow> False | Some a \<Rightarrow> arg_content a \<noteq> None)"

definition supplied_memory_id :: "arguments option \<Rightarrow> bool" where
  "supplied_memory_id args = (case args of None \<Rightarrow> False | Some a \<Rightarrow> arg_memory_id a \<noteq> None)"

text \<open>
  \<^verbatim>\<open>arguments.get("memory_id")\<close>: \<^verbatim>\<open>None\<close> when the key is missing, else
  the value, which may be \<^verbatim>\<open>None\<close> too.
\<close>

definition get_arg_memory_id :: "arguments \<Rightarrow> py_value option" where
  "get_arg_memory_id a = (case arg_memory_id a of None \<Rightarrow> None | Some v \<Rightarrow> v)"

subsection \<open>Rendering integers (f-strings)\<close>

definition digit_char :: "nat \<Rightarrow> char" where
  "digit_char d = ''0123456789'' ! (d mod 10)"

fun str_nat :: "nat \<Rightarrow> string" where
  "str_nat n = (if n < 10 then [digit_char n] else str_nat (n div 10) @ [digit_char (n mod 10)])"

definition str_int :: "int \<Rightarrow> string" where
  "str_int i = (if i < 0 then ''-'' @ str_nat (nat (- i)) else str_nat (nat i))"

subsection \<open>The storage engine\<close>

text \<open>
  A Python integer is bound to a statement parameter only if it is a 64-bit signed
  integer; otherwise \<^verbatim>\<open>execute\<close> raises \<^verbatim>\<open>OverflowError\<close>.
\<close>

definition max_rowid_limit :: int where
  "max_rowid_limit = 9223372036854775807"

definition sqlite_int :: "int \<Rightarrow> bool" where
  "sqlite_int i = (- max_rowid_limit - 1 \<le> i \<and> i \<le> max_rowid_limit)"

definition too_large :: exn where
  "too_large = OverflowError ''Python int too large to convert to SQLite INTEGER''"

definition database_full :: exn where
  "database_full = OperationalError ''database or disk is full''"

text \<open>
  The row id of an \<^verbatim>\<open>INSERT\<close> that gives none, for a column declared
  \<^verbatim>\<open>INTEGER PRIMARY KEY\<close> without \<^verbatim>\<open>AUTOINCREMENT\<close>: 1 in an empty
  table, else one more than the largest row id in the table; when that is the largest
  64-bit integer, the first candidate the engine draws that is positive and unused, and
  the insert fails when there is none.
\<close>

definition largest_rowid :: "memory_row list \<Rightarrow> int" where
  "largest_rowid rows = Max (set (map row_id rows))"

definition new_rowid :: "int list \<Rightarrow> memory_row list \<Rightarrow> int option" where
  "new_rowid candidates rows =
     (if rows = [] then Some 1
      else if largest_rowid rows < max_rowid_limit then Some (largest_rowid rows + 1)
      else find (\<lambda>c. 1 \<le> c \<and> c \<le> max_rowid_limit \<and> c \<notin> set (map row_id rows)) candidates)"

subsection \<open>DatabaseManager\<close>

text \<open>
  \<^verbatim>\<open>initialize_db\<close> connects and runs \<^verbatim>\<open>CREATE TABLE IF NOT EXISTS\<close>: the
  rows already in the file stay. \<^verbatim>\<open>close\<close> drops the connection. No call
  reaches the two \<^verbatim>\<open>raise RuntimeError\<close> statements: they test
  \<^verbatim>\<open>self.conn is None\<close> right after \<^verbatim>\<open>sqlite3.connect\<close> has set it.
  Failures of the file system (a connect or a write that fails) are not modelled.
\<close>

definition initialize_db :: "database \<Rightarrow> database" where
  "initialize_db db = db\<lparr>conn := True\<rparr>"

definition close :: "database \<Rightarrow> database" where
  "close db = (if conn db then db\<lparr>conn := False\<rparr> else db)"

text \<open>The opening lines of every method: \<^verbatim>\<open>if not self.conn: self.initialize_db()\<close>.\<close>

definition ensure_conn :: "database \<Rightarrow> database" where
  "ensure_conn db = (if \<not> conn db then initialize_db db else db)"

definition db_add_memory :: "env \<Rightarrow> string \<Rightarrow> string \<Rightarrow> database \<Rightarrow> (exn + int) \<times> database" where
  "db_add_memory e ttl cnt db =
     (let db1 = ensure_conn db;
          current_time = now e
      in case new_rowid (rowid_candidates e) (memories db1) of
           None \<Rightarrow> (Inl database_full, db1)
         | Some lastrowid \<Rightarrow>
             (Inr (if lastrowid \<noteq> 0 then lastrowid else 0),
              db1\<lparr>memories :=
                    insort_key row_id
                      \<lparr>row_id = lastrowid, title = ttl, content = cnt,
                       created_at = current_time, updated_at = current_time\<rparr>
                      (memories db1)\<rparr>))"

definition db_get_memory_by_id :: "int \<Rightarrow> database \<Rightarrow> (exn + memory_row option) \<times> database" where
  "db_get_memory_by_id memory_id db =
     (let db1 = ensure_conn db
      in if \<not> sqlite_int memory_id then (Inl too_large, db1)
         else (Inr (find (\<lambda>r. row_id r = memory_id) (memories db1)), db1))"

definition db_get_memory_by_title :: "string \<Rightarrow> database \<Rightarrow> (exn + memory_row option) \<times> database" where
  "db_get_memory_by_title ttl db =
     (let db1 = ensure_conn db
      in (Inr (find (\<lambda>r. title r = ttl) (memories db1)), db1))"

definition db_list_memories :: "database \<Rightarrow> (exn + (int \<times> string) list) \<times> database" where
  "db_list_memories db =
     (let db1 = ensure_conn db
      in (Inr (map (\<lambda>r. (row_id r, title r)) (memories db1)), db1))"

text \<open>
  One entry of \<^verbatim>\<open>update_items\<close> with its parameter: an assignment of the
  \<^verbatim>\<open>SET\<close> clause.
\<close>

datatype assignment = SetTitle string | SetContent string | SetUpdatedAt string

fun assign :: "assignment \<Rightarrow> memory_row \<Rightarrow> memory_row" where
  "assign (SetTitle t) r = r\<lparr>title := t\<rparr>"
| "assign (SetContent c) r = r\<lparr>content := c\<rparr>"
| "assign (SetUpdatedAt u) r = r\<lparr>updated_at := u\<rparr>"

text \<open>\<^verbatim>\<open>UPDATE memories SET ... WHERE id = ?\<close>\<close>

definition sql_update :: "assignment list \<Rightarrow> int \<Rightarrow> memory_row list \<Rightarrow> memory_row list" where
  "sql_update items memory_id rows =
     map (\<lambda>r. if row_id r = memory_id then fold assign items r else r) rows"

text \<open>\<^verbatim>\<open>DELETE FROM memories WHERE id = ?\<close>\<close>

definition sql_delete :: "int \<Rightarrow> memory_row list \<Rightarrow> memory_row list" where
  "sql_delete memory_id rows = filter (\<lambda>r. row_id r \<noteq> memory_id) rows"

definition db_update_memory ::
  "env \<Rightarrow> int \<Rightarrow> string option \<Rightarrow> string option \<Rightarrow> database \<Rightarrow> (exn + bool) \<times> database" where
  "db_update_memory e memory_id ttl cnt db =
     (let db1 = ensure_conn db
      in case db_get_memory_by_id memory_id db1 of
           (Inl err, db2) \<Rightarrow> (Inl err, db2)
         | (Inr None, db2) \<Rightarrow> (Inr False, db2)
         | (Inr (Some existing_memory), db2) \<Rightarrow>
             (let update_items =
                    (case ttl of None \<Rightarrow> [] | Some t \<Rightarrow> [SetTitle t])
                    @ (case cnt of None \<Rightarrow> [] | Some c \<Rightarrow> [SetContent c])
              in if update_items = [] then (Inr True, db2)
                 else (Inr True,
                       db2\<lparr>memories :=
                             sql_update (update_items @ [SetUpdatedAt (now e)]) memory_id
                               (memories db2)\<rparr>)))"

definition db_delete_memory :: "int \<Rightarrow> database \<Rightarrow> (exn + bool) \<times> database" where
  "db_delete_memory memory_id db =
     (let db1 = ensure_conn db
      in case db_get_memory_by_id memory_id db1 of
           (Inl err, db2) \<Rightarrow> (Inl err, db2)
         | (Inr None, db2) \<Rightarrow> (Inr False, db2)
         | (Inr (Some existing_memory), db2) \<Rightarrow>
             (Inr True, db2\<lparr>memories := sql_delete memory_id (memories db2)\<rparr>))"

subsection \<open>The tool functions\<close>

text \<open>
  Each tool function runs its body under \<^verbatim>\<open>try\<close> and turns any exception of the
  store into a text; it returns the text and the handle.
\<close>

definition remember :: "env \<Rightarrow> string \<Rightarrow> string \<Rightarrow> database \<Rightarrow> string \<times> database" where
  "remember e ttl cnt db =
     (case db_add_memory e ttl cnt db of
        (Inr memory_id, db') \<Rightarrow>
          (''Memory stored successfully with ID: '' @ str_int memory_id @ ''.'', db')
      | (Inl err, db') \<Rightarrow> (''Error storing memory: '' @ str_exn err, db'))"

definition render_memory :: "memory_row option \<Rightarrow> string" where
  "render_memory memory =
     (case memory of
        Some m \<Rightarrow> ''Title: '' @ title m @ [CHR 0x0A, CHR 0x0A] @ ''Content: '' @ content m
      | None \<Rightarrow> ''Memory not found.'')"

definition get_memory ::
  "py_value option \<Rightarrow> string option \<Rightarrow> database \<Rightarrow> string \<times> database" where
  "get_memory memory_id ttl db =
     (case memory_id of
        Some v \<Rightarrow>
          (case py_int (Some v) of
             Inl err \<Rightarrow> (''Error retrieving memory: '' @ str_exn err, db)
           | Inr i \<Rightarrow>
               (case db_get_memory_by_id i db of
                  (Inr memory, db') \<Rightarrow> (render_memory memory, db')
                | (Inl err, db') \<Rightarrow> (''Error retrieving memory: '' @ str_exn err, db')))
      | None \<Rightarrow>
          (case ttl of
             Some t \<Rightarrow>
               (case db_get_memory_by_title t db of
                  (Inr memory, db') \<Rightarrow> (render_memory memory, db')
                | (Inl err, db') \<Rightarrow> (''Error retrieving memory: '' @ str_exn err, db'))
           | None \<Rightarrow> (''Error: Please provide either a memory_id or title.'', db)))"

text \<open>The body of the loop \<^verbatim>\<open>for memory in memories: result += ...\<close>.\<close>

definition list_line :: "int \<times> string \<Rightarrow> string" where
  "list_line memory = ''ID: '' @ str_int (fst memory) @ '' - '' @ snd memory @ [CHR 0x0A]"

definition list_memories :: "database \<Rightarrow> string \<times> database" where
  "list_memories db =
     (case db_list_memories db of
        (Inr mems, db') \<Rightarrow>
          (if mems = [] then (''No memories stored yet.'', db')
           else (fold (\<lambda>memory result. result @ list_line memory) mems
                   (''Stored Memories:'' @ [CHR 0x0A, CHR 0x0A]), db'))
      | (Inl err, db') \<Rightarrow> (''Error listing memories: '' @ str_exn err, db'))"

definition update_memory ::
  "env \<Rightarrow> int \<Rightarrow> string option \<Rightarrow> string option \<Rightarrow> database \<Rightarrow> string \<times> database" where
  "update_memory e memory_id ttl cnt db =
     (if ttl = None \<and> cnt = None
      then (''Error: Please provide at least one field to update (title or content).'', db)
      else case db_update_memory e memory_id ttl cnt db of
             (Inr success, db') \<Rightarrow>
               (if success then ''Memory '' @ str_int memory_id @ '' updated successfully.''
                else ''Memory with ID '' @ str_int memory_id @ '' not found.'', db')
           | (Inl err, db') \<Rightarrow> (''Error updating memory: '' @ str_exn err, db'))"

definition delete_memory :: "int \<Rightarrow> database \<Rightarrow> string \<times> database" where
  "delete_memory memory_id db =
     (case db_delete_memory memory_id db of
        (Inr success, db') \<Rightarrow>
          (if success then ''Memory '' @ str_int memory_id @ '' deleted successfully.''
           else ''Memory with ID '' @ str_int memory_id @ '' not found.'', db')
      | (Inl err, db') \<Rightarrow> (''Error deleting memory: '' @ str_exn err, db'))"

subsection \<open>The dispatcher\<close>

text \<open>
  \<^verbatim>\<open>handle_call_tool\<close>: \<open>Inr text\<close> is the returned list of one
  \<^verbatim>\<open>TextContent\<close>, \<open>Inl e\<close> is the exception the handler raises, which the
  transport reports as a protocol error. In the branches of \<^verbatim>\<open>update_memory\<close>
  and \<^verbatim>\<open>delete_memory\<close> the conversion \<^verbatim>\<open>int(arguments["memory_id"])\<close>
  runs outside any \<^verbatim>\<open>try\<close>, so what it raises leaves the handler. The guards are
  written as case distinctions on the mapping; lemma \<open>guards_as_written\<close> below gives
  them in the handler's own words.
\<close>

definition text_response :: "string \<times> database \<Rightarrow> (exn + string) \<times> database" where
  "text_response r = (Inr (fst r), snd r)"

definition handle_call_tool ::
  "env \<Rightarrow> string \<Rightarrow> arguments option \<Rightarrow> database \<Rightarrow> (exn + string) \<times> database" where
  "handle_call_tool e name args db =
     (if name = ''remember'' then
        (case args of
           None \<Rightarrow> (Inl (ValueError ''Missing title or content arguments''), db)
         | Some a \<Rightarrow>
             (case (arg_title a, arg_content a) of
                (Some t, Some c) \<Rightarrow> text_response (remember e t c db)
              | _ \<Rightarrow> (Inl (ValueError ''Missing title or content arguments''), db)))
      else if name = ''get_memory'' then
        (if not_arguments args then (Inl (ValueError ''Missing arguments''), db)
         else case args of
                None \<Rightarrow> (Inl (ValueError ''Missing arguments''), db)
              | Some a \<Rightarrow> text_response (get_memory (get_arg_memory_id a) (arg_title a) db))
      else if name = ''list_memories'' then text_response (list_memories db)
      else if name = ''update_memory'' then
        (case args of
           None \<Rightarrow> (Inl (ValueError ''Missing memory_id argument''), db)
         | Some a \<Rightarrow>
             (case arg_memory_id a of
                None \<Rightarrow> (Inl (ValueError ''Missing memory_id argument''), db)
              | Some v \<Rightarrow>
                  (case py_int v of
                     Inl err \<Rightarrow> (Inl err, db)
                   | Inr memory_id \<Rightarrow>
                       text_response
                         (update_memory e memory_id (arg_title a) (arg_content a) db))))
      else if name = ''delete_memory'' then
        (case args of
           None \<Rightarrow> (Inl (ValueError ''Missing memory_id argument''), db)
         | Some a \<Rightarrow>
             (case arg_memory_id a of
                None \<Rightarrow> (Inl (ValueError ''Missing memory_id argument''), db)
              | Some v \<Rightarrow>
                  (case py_int v of
                     Inl err \<Rightarrow> (Inl err, db)
                   | Inr memory_id \<Rightarrow> text_response (delete_memory memory_id db))))
      else (Inl (ValueError (''Unknown tool: '' @ name)), db))"

text \<open>
  The malformed invocations as the specification lists them: \<^verbatim>\<open>remember\<close> without
  \<^verbatim>\<open>title\<close> or \<^verbatim>\<open>content\<close>, \<^verbatim>\<open>update_memory\<close> or
  \<^verbatim>\<open>delete_memory\<close> without \<^verbatim>\<open>memory_id\<close>, or a name outside the five.
\<close>

definition tool_names :: "string list" where
  "tool_names = [''remember'', ''get_memory'', ''list_memories'', ''update_memory'', ''delete_memory'']"

definition spec_malformed :: "string \<Rightarrow> arguments option \<Rightarrow> bool" where
  "spec_malformed name args =
     ((name = ''remember'' \<and> \<not> (supplied_title args \<and> supplied_content args))
      \<or> ((name = ''update_memory'' \<or> name = ''delete_memory'') \<and> \<not> supplied_memory_id args)
      \<or> name \<notin> set tool_names)"

text \<open>
  The key \<^verbatim>\<open>memory_id\<close> is present and \<^verbatim>\<open>int\<close> raises on its value.
\<close>

definition unconvertible_memory_id :: "arguments option \<Rightarrow> bool" where
  "unconvertible_memory_id args =
     (case args of
        None \<Rightarrow> False
      | Some a \<Rightarrow>
          (case arg_memory_id a of
             None \<Rightarrow> False
           | Some v \<Rightarrow> (case py_int v of Inl err \<Rightarrow> True | Inr n \<Rightarrow> False)))"

definition is_protocol_error :: "(exn + string) \<times> database \<Rightarrow> bool" where
  "is_protocol_error r = (case fst r of Inl err \<Rightarrow> True | Inr txt \<Rightarrow> False)"

subsection \<open>Sequences of store operations\<close>

text \<open>
  A run of \<^verbatim>\<open>add_memory\<close> and \<^verbatim>\<open>delete_memory\<close> calls on the store; each
  call has its own environment. \<open>assigned\<close> collects, in order, the ids the adds
  returned.
\<close>

datatype store_op = Add env string string | Delete int

fun assigned :: "store_op list \<Rightarrow> database \<Rightarrow> int list" where
  "assigned [] db = []"
| "assigned (Add e t c # ops) db =
     (case db_add_memory e t c db of
        (Inr i, db') \<Rightarrow> i # assigned ops db'
      | (Inl err, db') \<Rightarrow> assigned ops db')"
| "assigned (Delete i # ops) db = assigned ops (snd (db_delete_memory i db))"

text \<open>The table as the engine keeps it: row ids are 64-bit, unique and ascending.\<close>

definition table_ok :: "memory_row list \<Rightarrow> bool" where
  "table_ok rows =
     (list_all (\<lambda>r. sqlite_int (row_id r)) rows \<and> distinct (map row_id rows)
      \<and> sorted (map row_id rows))"

definition empty_db :: database where
  "empty_db = \<lparr>conn = False, memories = []\<rparr>"

subsection \<open>A sample store\<close>

text \<open>
  The store of the test fixture \<^verbatim>\<open>sample_memories\<close>, open, after its three adds;
  and an environment whose clock reads the given string.
\<close>

definition sample_memories :: database where
  "sample_memories =
     \<lparr>conn = True,
      memories =
        [\<lparr>row_id = 1, title = ''Test Memory 1'', content = ''content 1'',
          created_at = ''2024-01-01T10:00:00'', updated_at = ''2024-01-01T10:00:00''\<rparr>,
         \<lparr>row_id = 2, title = ''Test Memory 2'', content = ''content 2'',
          created_at = ''2024-01-01T10:00:01'', updated_at = ''2024-01-01T10:00:01''\<rparr>,
         \<lparr>row_id = 3, title = ''Another Memory'', content = ''content 3'',
          created_at = ''2024-01-01T10:00:02'', updated_at = ''2024-01-01T10:00:02''\<rparr>]\<rparr>"

definition at_time :: "string \<Rightarrow> env" where
  "at_time s = \<lparr>now = s, rowid_candidates = []\<rparr>"

section \<open>Properties\<close>

subsection \<open>The store methods in closed form\<close>

lemma memories_ensure_conn: "memories (ensure_conn db) = memories db"
  by (simp add: ensure_conn_def initialize_db_def)

lemma conn_ensure_conn: "conn (ensure_conn db)"
  by (simp add: ensure_conn_def initialize_db_def)

lemma ensure_conn_idem: "ensure_conn (ensure_conn db) = ensure_conn db"
  by (simp add: ensure_conn_def initialize_db_def)

lemma get_by_id_eq:
  "db_get_memory_by_id i db =
     (if sqlite_int i then Inr (find (\<lambda>r. row_id r = i) (memories db)) else Inl too_large,
      ensure_conn db)"
  by (simp add: db_get_memory_by_id_def Let_def memories_ensure_conn)

lemma get_by_title_eq:
  "db_get_memory_by_title t db = (Inr (find (\<lambda>r. title r = t) (memories db)), ensure_conn db)"
  by (simp add: db_get_memory_by_title_def Let_def memories_ensure_conn)

lemma list_eq:
  "db_list_memories db = (Inr (map (\<lambda>r. (row_id r, title r)) (memories db)), ensure_conn db)"
  by (simp add: db_list_memories_def Let_def memories_ensure_conn)

lemma find_id_None: "(find (\<lambda>r. row_id r = i) rows = None) = (i \<notin> row_id ` set rows)"
  by (auto simp: find_None_iff)

lemma delete_eq:
  "db_delete_memory i db =
     (if \<not> sqlite_int i then (Inl too_large, ensure_conn db)
      else if i \<in> row_id ` set (memories db)
           then (Inr True, (ensure_conn db)\<lparr>memories := sql_delete i (memories db)\<rparr>)
           else (Inr False, ensure_conn db))"
proof (cases "find (\<lambda>r. row_id r = i) (memories db)")
  case None
  then show ?thesis
    using find_id_None [of i "memories db"]
    by (simp add: db_delete_memory_def Let_def get_by_id_eq ensure_conn_idem memories_ensure_conn)
next
  case (Some r)
  then show ?thesis
    using find_id_None [of i "memories db"]
    by (simp add: db_delete_memory_def Let_def get_by_id_eq ensure_conn_idem memories_ensure_conn)
qed

lemma update_eq:
  "db_update_memory e i ttl cnt db =
     (if \<not> sqlite_int i then (Inl too_large, ensure_conn db)
      else if i \<notin> row_id ` set (memories db) then (Inr False, ensure_conn db)
      else if ttl = None \<and> cnt = None then (Inr True, ensure_conn db)
      else (Inr True,
            (ensure_conn db)\<lparr>memories :=
               sql_update
                 ((case ttl of None \<Rightarrow> [] | Some t \<Rightarrow> [SetTitle t])
                  @ (case cnt of None \<Rightarrow> [] | Some c \<Rightarrow> [SetContent c])
                  @ [SetUpdatedAt (now e)])
                 i (memories db)\<rparr>))"
proof (cases "find (\<lambda>r. row_id r = i) (memories db)")
  case None
  then show ?thesis
    using find_id_None [of i "memories db"]
    by (simp add: db_update_memory_def Let_def get_by_id_eq ensure_conn_idem memories_ensure_conn)
next
  case (Some r)
  then show ?thesis
    using find_id_None [of i "memories db"]
    by (simp add: db_update_memory_def Let_def get_by_id_eq ensure_conn_idem memories_ensure_conn
        split: option.splits)
qed

lemma add_eq:
  "db_add_memory e t c db =
     (case new_rowid (rowid_candidates e) (memories db) of
        None \<Rightarrow> (Inl database_full, ensure_conn db)
      | Some i \<Rightarrow>
          (Inr i,
           (ensure_conn db)\<lparr>memories :=
              insort_key row_id
                \<lparr>row_id = i, title = t, content = c, created_at = now e, updated_at = now e\<rparr>
                (memories db)\<rparr>))"
  by (simp add: db_add_memory_def Let_def memories_ensure_conn split: option.splits)

text \<open>
  Every method of the store leaves the connection open, so a call on a closed handle
  shows in the handle it returns.
\<close>

lemma store_call_connects:
  "conn (snd (db_add_memory e t c db))"
  "conn (snd (db_get_memory_by_id i db))"
  "conn (snd (db_get_memory_by_title t db))"
  "conn (snd (db_list_memories db))"
  "conn (snd (db_update_memory e i ttl cnt db))"
  "conn (snd (db_delete_memory i db))"
  by (simp_all add: add_eq get_by_id_eq get_by_title_eq list_eq update_eq delete_eq
        conn_ensure_conn split: option.splits)

subsection \<open>Row ids\<close>

lemma largest_rowid_ge: "r \<in> set rows \<Longrightarrow> row_id r \<le> largest_rowid rows"
  by (simp add: largest_rowid_def)

lemma largest_rowid_in: "rows \<noteq> [] \<Longrightarrow> largest_rowid rows \<in> row_id ` set rows"
  unfolding largest_rowid_def using Max_in [of "set (map row_id rows)"] by simp

lemma new_rowid_fresh:
  assumes "new_rowid cs rows = Some i"
  shows "i \<notin> row_id ` set rows"
proof (cases "rows = []")
  case True
  then show ?thesis by simp
next
  case False
  show ?thesis
  proof (cases "largest_rowid rows < max_rowid_limit")
    case True
    with False assms have i: "i = largest_rowid rows + 1"
      by (simp add: new_rowid_def)
    have "\<forall>x \<in> row_id ` set rows. x \<le> largest_rowid rows"
      by (simp add: largest_rowid_def)
    with i show ?thesis by fastforce
  next
    case sat: False
    with False assms
    have "find (\<lambda>c. 1 \<le> c \<and> c \<le> max_rowid_limit \<and> c \<notin> set (map row_id rows)) cs = Some i"
      by (simp add: new_rowid_def)
    then show ?thesis
      by (auto simp: find_Some_iff)
  qed
qed

lemma find_insort_fresh:
  assumes "row_id r \<notin> row_id ` set rows"
  shows "find (\<lambda>x. row_id x = row_id r) (insort_key row_id r rows) = Some r"
  using assms by (induction rows) auto

subsection \<open>The dispatcher's guards\<close>

text \<open>Each tool raises exactly under the condition of its \<^verbatim>\<open>if\<close> in the handler.\<close>

lemma guards_as_written:
  "is_protocol_error (handle_call_tool e ''remember'' args db)
     = (not_arguments args \<or> \<not> supplied_title args \<or> \<not> supplied_content args)"
  "is_protocol_error (handle_call_tool e ''get_memory'' args db) = not_arguments args"
  "is_protocol_error (handle_call_tool e ''list_memories'' args db) = False"
  "is_protocol_error (handle_call_tool e ''update_memory'' args db)
     = (not_arguments args \<or> \<not> supplied_memory_id args \<or> unconvertible_memory_id args)"
  "is_protocol_error (handle_call_tool e ''delete_memory'' args db)
     = (not_arguments args \<or> \<not> supplied_memory_id args \<or> unconvertible_memory_id args)"
  by (auto simp: handle_call_tool_def is_protocol_error_def not_arguments_def
        supplied_title_def supplied_content_def supplied_memory_id_def text_response_def
        unconvertible_memory_id_def split: option.splits sum.splits)

text \<open>
  C1 (amended). When the argument mapping of \<^verbatim>\<open>get_memory\<close> supplies neither
  \<^verbatim>\<open>memory_id\<close> nor \<^verbatim>\<open>title\<close>, the dispatcher makes no call to the
  store: it returns the handle as it received it, closed if it was closed. If the
  mapping has some other key, the response is the text
  \<^verbatim>\<open>Error: Please provide either a memory_id or title.\<close>; if the mapping is empty
  or absent, the handler raises \<^verbatim>\<open>ValueError("Missing arguments")\<close> instead.
\<close>

theorem get_memory_without_identifier:
  assumes "\<not> supplied_memory_id args" and "\<not> supplied_title args"
  shows "handle_call_tool e ''get_memory'' args db =
           (if not_arguments args then Inl (ValueError ''Missing arguments'')
            else Inr ''Error: Please provide either a memory_id or title.'', db)"
  using assms
  by (cases args)
     (simp_all add: handle_call_tool_def not_arguments_def supplied_memory_id_def
        supplied_title_def get_memory_def get_arg_memory_id_def text_response_def)

text \<open>
  The theorem at the mapping \<^verbatim>\<open>{"content": "c"}\<close> and the closed, empty store: the
  text comes back and the store is still closed.
\<close>

theorem get_memory_without_identifier_witness:
  "\<not> supplied_memory_id (Some (no_arguments\<lparr>arg_content := Some ''c''\<rparr>))
   \<and> \<not> supplied_title (Some (no_arguments\<lparr>arg_content := Some ''c''\<rparr>))
   \<and> handle_call_tool (at_time ''2024-01-02T09:00:00'') ''get_memory''
         (Some (no_arguments\<lparr>arg_content := Some ''c''\<rparr>)) empty_db
       = (Inr ''Error: Please provide either a memory_id or title.'', empty_db)"
  using get_memory_without_identifier
          [of "Some (no_arguments\<lparr>arg_content := Some ''c''\<rparr>)"
              "at_time ''2024-01-02T09:00:00''" empty_db]
  by (simp add: supplied_memory_id_def supplied_title_def no_arguments_def not_arguments_def)

text \<open>
  C1 as stated fails at the present-but-empty mapping \<^verbatim>\<open>{}\<close>: the guard
  \<^verbatim>\<open>if not arguments: raise ValueError("Missing arguments")\<close> fires before
  \<^verbatim>\<open>get_memory\<close> is reached.
\<close>

theorem get_memory_empty_mapping_counterexample:
  "handle_call_tool (at_time ''2024-01-02T09:00:00'') ''get_memory''
      (Some no_arguments) empty_db
     = (Inl (ValueError ''Missing arguments''), empty_db)
   \<and> fst (handle_call_tool (at_time ''2024-01-02T09:00:00'')
            ''get_memory'' (Some no_arguments) empty_db)
     \<noteq> Inr ''Error: Please provide either a memory_id or title.''"
  by (simp add: handle_call_tool_def not_arguments_def no_arguments_def)

text \<open>
  C7 (amended). The handler raises, instead of returning a text, exactly when the call is
  one of the malformed invocations the specification lists (\<^verbatim>\<open>remember\<close> without
  \<^verbatim>\<open>title\<close> or \<^verbatim>\<open>content\<close>, \<^verbatim>\<open>update_memory\<close> or
  \<^verbatim>\<open>delete_memory\<close> without \<^verbatim>\<open>memory_id\<close>, a name outside the five), or is
  \<^verbatim>\<open>get_memory\<close> with an empty or absent argument mapping, or is
  \<^verbatim>\<open>update_memory\<close> or \<^verbatim>\<open>delete_memory\<close> with a \<^verbatim>\<open>memory_id\<close> that
  \<^verbatim>\<open>int\<close> cannot convert; for a name outside the five the diagnostic is
  \<^verbatim>\<open>Unknown tool: {name}\<close>.
\<close>

theorem protocol_error_iff:
  "(is_protocol_error (handle_call_tool e name args db)
      \<longleftrightarrow> spec_malformed name args
          \<or> (name = ''get_memory'' \<and> not_arguments args)
          \<or> ((name = ''update_memory'' \<or> name = ''delete_memory'')
               \<and> unconvertible_memory_id args))
   \<and> (name \<notin> set tool_names \<longrightarrow>
        handle_call_tool e name args db = (Inl (ValueError (''Unknown tool: '' @ name)), db))"
  by (auto simp: handle_call_tool_def is_protocol_error_def spec_malformed_def tool_names_def
        supplied_title_def supplied_content_def supplied_memory_id_def not_arguments_def
        text_response_def unconvertible_memory_id_def split: option.splits sum.splits)

text \<open>
  The theorem at \<^verbatim>\<open>invoke("bogus_tool", {})\<close> and at
  \<^verbatim>\<open>invoke("delete_memory", {"memory_id": "abc"})\<close>.
\<close>

theorem protocol_error_iff_witness:
  "''bogus_tool'' \<notin> set tool_names
   \<and> is_protocol_error
        (handle_call_tool (at_time ''2024-01-02T09:00:00'')
           ''bogus_tool'' (Some no_arguments) empty_db)
   \<and> handle_call_tool (at_time ''2024-01-02T09:00:00'')
        ''bogus_tool'' (Some no_arguments) empty_db
       = (Inl (ValueError ''Unknown tool: bogus_tool''), empty_db)
   \<and> unconvertible_memory_id
        (Some (no_arguments\<lparr>arg_memory_id :=
           Some (Some (Unconvertible (ValueError
             (''invalid literal for int() with base 10: '' @ [CHR 0x27] @ ''abc'' @ [CHR 0x27]))))\<rparr>))
   \<and> is_protocol_error
        (handle_call_tool (at_time ''2024-01-02T09:00:00'') ''delete_memory''
           (Some (no_arguments\<lparr>arg_memory_id :=
              Some (Some (Unconvertible (ValueError
                (''invalid literal for int() with base 10: '' @ [CHR 0x27] @ ''abc'' @ [CHR 0x27]))))\<rparr>))
           sample_memories)"
proof -
  let ?abc = "Some (no_arguments\<lparr>arg_memory_id :=
           Some (Some (Unconvertible (ValueError
             (''invalid literal for int() with base 10: '' @ [CHR 0x27] @ ''abc'' @ [CHR 0x27]))))\<rparr>)"
  have bogus: "''bogus_tool'' \<notin> set tool_names"
    by (simp add: tool_names_def)
  have abc: "unconvertible_memory_id ?abc"
    by (simp add: unconvertible_memory_id_def no_arguments_def py_int_def)
  from protocol_error_iff
         [of "at_time ''2024-01-02T09:00:00''" "''bogus_tool''" "Some no_arguments" empty_db]
       bogus
  have unknown: "is_protocol_error
        (handle_call_tool (at_time ''2024-01-02T09:00:00'')
           ''bogus_tool'' (Some no_arguments) empty_db)
     \<and> handle_call_tool (at_time ''2024-01-02T09:00:00'')
        ''bogus_tool'' (Some no_arguments) empty_db
       = (Inl (ValueError ''Unknown tool: bogus_tool''), empty_db)"
    by (simp add: spec_malformed_def is_protocol_error_def)
  from protocol_error_iff
         [of "at_time ''2024-01-02T09:00:00''" "''delete_memory''" ?abc sample_memories]
       abc
  have "is_protocol_error
          (handle_call_tool (at_time ''2024-01-02T09:00:00'') ''delete_memory'' ?abc
             sample_memories)"
    by blast
  with bogus abc unknown show ?thesis by blast
qed

text \<open>
  C7 as stated fails at \<^verbatim>\<open>get_memory\<close> with an absent argument mapping: the handler
  raises although the call is none of the listed malformed invocations.
\<close>

theorem get_memory_absent_mapping_counterexample:
  "is_protocol_error
     (handle_call_tool (at_time ''2024-01-02T09:00:00'') ''get_memory''
        None empty_db)
   \<and> \<not> spec_malformed ''get_memory'' None"
  by (simp add: handle_call_tool_def is_protocol_error_def spec_malformed_def tool_names_def
        not_arguments_def)

subsection \<open>The table invariant\<close>

lemma new_rowid_sqlite_int:
  assumes ok: "list_all (\<lambda>r. sqlite_int (row_id r)) rows" and new: "new_rowid cs rows = Some i"
  shows "sqlite_int i"
proof (cases "rows = []")
  case True
  with new show ?thesis by (simp add: new_rowid_def sqlite_int_def max_rowid_limit_def)
next
  case False
  show ?thesis
  proof (cases "largest_rowid rows < max_rowid_limit")
    case True
    with False new have i: "i = largest_rowid rows + 1"
      by (simp add: new_rowid_def)
    from largest_rowid_in [OF False] ok have "sqlite_int (largest_rowid rows)"
      by (auto simp: list_all_iff)
    with i True show ?thesis by (simp add: sqlite_int_def)
  next
    case sat: False
    with False new
    have "find (\<lambda>c. 1 \<le> c \<and> c \<le> max_rowid_limit \<and> c \<notin> set (map row_id rows)) cs = Some i"
      by (simp add: new_rowid_def)
    then have "1 \<le> i \<and> i \<le> max_rowid_limit"
      by (auto simp: find_Some_iff)
    then show ?thesis by (simp add: sqlite_int_def max_rowid_limit_def)
  qed
qed

lemma new_rowid_not_saturated:
  assumes "\<forall>r\<in>set rows. row_id r < max_rowid_limit"
  shows "new_rowid cs rows = Some (if rows = [] then 1 else largest_rowid rows + 1)"
proof (cases "rows = []")
  case True
  then show ?thesis by (simp add: new_rowid_def)
next
  case False
  from largest_rowid_in [OF False] assms have "largest_rowid rows < max_rowid_limit"
    by auto
  with False show ?thesis by (simp add: new_rowid_def)
qed

text \<open>
  The invariant holds of the empty table and every method of the store keeps it.
\<close>

lemma table_ok_empty: "table_ok []"
  by (simp add: table_ok_def)

lemma table_ok_insort:
  assumes "table_ok rows" and "sqlite_int (row_id r)" and "row_id r \<notin> row_id ` set rows"
  shows "table_ok (insort_key row_id r rows)"
  using assms
  by (auto simp: table_ok_def list_all_iff set_insort_key sorted_insort_key distinct_insort_key)

lemma table_ok_add:
  assumes "table_ok (memories db)" and "db_add_memory e t c db = (Inr i, db')"
  shows "table_ok (memories db')"
proof -
  from assms(2) obtain j where j: "new_rowid (rowid_candidates e) (memories db) = Some j"
    and db': "db' = (ensure_conn db)\<lparr>memories := insort_key row_id
                \<lparr>row_id = j, title = t, content = c, created_at = now e, updated_at = now e\<rparr>
                (memories db)\<rparr>"
    by (auto simp: add_eq split: option.splits)
  from assms(1) have "list_all (\<lambda>r. sqlite_int (row_id r)) (memories db)"
    by (simp add: table_ok_def)
  from new_rowid_sqlite_int [OF this j] new_rowid_fresh [OF j] assms(1) db'
  show ?thesis
    by (simp add: table_ok_insort)
qed

lemma table_ok_sql_delete: "table_ok rows \<Longrightarrow> table_ok (sql_delete i rows)"
  by (auto simp: table_ok_def sql_delete_def list_all_iff distinct_map_filter sorted_filter)

lemma row_id_assign: "row_id (fold assign items r) = row_id r"
proof (induction items arbitrary: r)
  case Nil
  then show ?case by simp
next
  case (Cons a items)
  then show ?case by (cases a) simp_all
qed

lemma map_row_id_sql_update: "map row_id (sql_update items i rows) = map row_id rows"
  by (simp add: sql_update_def row_id_assign)

lemma table_ok_sql_update:
  assumes ok: "table_ok rows"
  shows "table_ok (sql_update items i rows)"
proof -
  have "list_all (\<lambda>r. sqlite_int (row_id r)) (sql_update items i rows)
          = list_all sqlite_int (map row_id (sql_update items i rows))"
    by (simp add: list_all_iff)
  also have "\<dots> = list_all (\<lambda>r. sqlite_int (row_id r)) rows"
    by (simp add: map_row_id_sql_update list_all_iff)
  finally show ?thesis
    using ok by (simp add: table_ok_def map_row_id_sql_update)
qed

lemma table_ok_delete:
  "table_ok (memories db) \<Longrightarrow> table_ok (memories (snd (db_delete_memory i db)))"
  by (simp add: delete_eq memories_ensure_conn table_ok_sql_delete)

lemma table_ok_update:
  "table_ok (memories db) \<Longrightarrow> table_ok (memories (snd (db_update_memory e i ttl cnt db)))"
  by (simp add: update_eq memories_ensure_conn table_ok_sql_update)

lemma table_ok_sqlite_int: "table_ok rows \<Longrightarrow> r \<in> set rows \<Longrightarrow> sqlite_int (row_id r)"
  by (simp add: table_ok_def list_all_iff)

lemma same_id_same_row:
  assumes "distinct (map row_id rows)" and "r \<in> set rows" and "x \<in> set rows"
  shows "(row_id x = row_id r) = (x = r)"
  using assms by (auto simp: distinct_map inj_on_def)

lemma sql_update_one_row:
  assumes "table_ok rows" and "r \<in> set rows"
  shows "sql_update items (row_id r) rows = map (\<lambda>x. if x = r then fold assign items r else x) rows"
proof -
  from assms(1) have "distinct (map row_id rows)" by (simp add: table_ok_def)
  from same_id_same_row [OF this assms(2)] show ?thesis
    by (auto simp: sql_update_def)
qed

text \<open>Facts that evaluate the store on a concrete table.\<close>

lemmas eval_defs = add_eq delete_eq update_eq get_by_id_eq get_by_title_eq list_eq
  ensure_conn_def initialize_db_def new_rowid_def largest_rowid_def sqlite_int_def
  max_rowid_limit_def sql_delete_def sql_update_def empty_db_def sample_memories_def at_time_def

lemma table_ok_sample: "table_ok (memories sample_memories)"
  by (simp add: sample_memories_def table_ok_def sqlite_int_def max_rowid_limit_def)

subsection \<open>Ids assigned by add\<close>

lemma add_after_delete_largest:
  assumes int: "sqlite_int i" and pos: "1 \<le> i" and stored: "i \<in> row_id ` set (memories db)"
    and largest: "\<forall>r\<in>set (memories db). row_id r \<le> i"
  shows "fst (db_delete_memory i db) = Inr True
         \<and> (\<exists>j db'. db_add_memory e t c (snd (db_delete_memory i db)) = (Inr j, db') \<and> j \<le> i)"
proof -
  let ?rest = "sql_delete i (memories db)"
  from int stored have del: "db_delete_memory i db = (Inr True, (ensure_conn db)\<lparr>memories := ?rest\<rparr>)"
    by (simp add: delete_eq)
  from largest have below: "\<forall>r\<in>set ?rest. row_id r < i"
    by (fastforce simp: sql_delete_def)
  from int have "i \<le> max_rowid_limit"
    by (simp add: sqlite_int_def)
  with below have "\<forall>r\<in>set ?rest. row_id r < max_rowid_limit"
    by fastforce
  from new_rowid_not_saturated [OF this, of "rowid_candidates e"]
  have new: "new_rowid (rowid_candidates e) ?rest
               = Some (if ?rest = [] then 1 else largest_rowid ?rest + 1)" .
  have le: "(if ?rest = [] then 1 else largest_rowid ?rest + 1) \<le> i"
  proof (cases "?rest = []")
    case True
    with pos show ?thesis by simp
  next
    case False
    from largest_rowid_in [OF False] below have "largest_rowid ?rest < i"
      by auto
    with False show ?thesis by simp
  qed
  from new have "\<exists>db'. db_add_memory e t c ((ensure_conn db)\<lparr>memories := ?rest\<rparr>)
                   = (Inr (if ?rest = [] then 1 else largest_rowid ?rest + 1), db')"
    by (simp add: add_eq)
  with le del show ?thesis
    by auto
qed

text \<open>
  C2 (amended). In whatever state the table is, after any sequence of adds and deletes,
  the id that \<^verbatim>\<open>add_memory\<close> assigns is the id of no record stored at that moment;
  and unless the table holds the largest 64-bit row id, the add returns, and the id is 1
  for an empty table and otherwise one more than the largest id stored, so strictly
  greater than the id of every stored record. Ids of deleted records are not set aside:
  once the record with the largest id \<open>i\<close>, \<open>i \<ge> 1\<close>, has been deleted, the next add
  is assigned an id that is at most \<open>i\<close>.
\<close>

theorem add_memory_id_above_stored:
  "(\<forall>i db'. db_add_memory e t c db = (Inr i, db') \<longrightarrow> i \<notin> row_id ` set (memories db))
   \<and> ((\<forall>r\<in>set (memories db). row_id r < max_rowid_limit) \<longrightarrow>
        (\<exists>i db'. db_add_memory e t c db = (Inr i, db')
                  \<and> i = (if memories db = [] then 1 else largest_rowid (memories db) + 1)
                  \<and> (\<forall>r\<in>set (memories db). row_id r < i)))
   \<and> (sqlite_int k \<and> 1 \<le> k \<and> k \<in> row_id ` set (memories db)
        \<and> (\<forall>r\<in>set (memories db). row_id r \<le> k) \<longrightarrow>
        fst (db_delete_memory k db) = Inr True
        \<and> (\<exists>j db'. db_add_memory e t c (snd (db_delete_memory k db)) = (Inr j, db')
                    \<and> j \<le> k))"
proof (intro conjI allI impI)
  fix i db'
  assume "db_add_memory e t c db = (Inr i, db')"
  then have "new_rowid (rowid_candidates e) (memories db) = Some i"
    by (auto simp: add_eq split: option.splits)
  then show "i \<notin> row_id ` set (memories db)"
    by (rule new_rowid_fresh)
next
  assume nonsat: "\<forall>r\<in>set (memories db). row_id r < max_rowid_limit"
  let ?i = "if memories db = [] then 1 else largest_rowid (memories db) + 1"
  have new: "new_rowid (rowid_candidates e) (memories db) = Some ?i"
    using nonsat by (rule new_rowid_not_saturated)
  have above: "\<forall>r\<in>set (memories db). row_id r < ?i"
    using largest_rowid_ge [of _ "memories db"] by fastforce
  from new obtain db' where "db_add_memory e t c db = (Inr ?i, db')"
    by (simp add: add_eq)
  with above
  show "\<exists>i db'. db_add_memory e t c db = (Inr i, db')
                  \<and> i = (if memories db = [] then 1 else largest_rowid (memories db) + 1)
                  \<and> (\<forall>r\<in>set (memories db). row_id r < i)"
    by blast
next
  assume h: "sqlite_int k \<and> 1 \<le> k \<and> k \<in> row_id ` set (memories db)
        \<and> (\<forall>r\<in>set (memories db). row_id r \<le> k)"
  with add_after_delete_largest [of k db e t c]
  show "fst (db_delete_memory k db) = Inr True"
    and "\<exists>j db'. db_add_memory e t c (snd (db_delete_memory k db)) = (Inr j, db') \<and> j \<le> k"
    by blast+
qed

text \<open>
  The theorem on the sample store: the ids 1, 2, 3 are stored and the add returns 4; and
  after the record with the largest id 3 is deleted, the add returns 3 again.
\<close>

theorem add_memory_id_above_stored_witness:
  "list_all (\<lambda>r. row_id r < max_rowid_limit) (memories sample_memories)
   \<and> fst (db_add_memory (at_time ''2024-01-02T09:00:00'') ''Fourth'' ''content 4'' sample_memories)
       = Inr 4
   \<and> 4 \<notin> row_id ` set (memories sample_memories)
   \<and> sqlite_int 3 \<and> 3 \<in> row_id ` set (memories sample_memories)
   \<and> list_all (\<lambda>r. row_id r \<le> 3) (memories sample_memories)
   \<and> fst (db_delete_memory 3 sample_memories) = Inr True
   \<and> fst (db_add_memory (at_time ''2024-01-02T09:00:00'') ''Fourth'' ''content 4''
            (snd (db_delete_memory 3 sample_memories)))
       = Inr 3"
proof -
  have nonsat: "\<forall>r\<in>set (memories sample_memories). row_id r < max_rowid_limit"
    by (simp add: sample_memories_def max_rowid_limit_def)
  have h: "sqlite_int 3 \<and> (1::int) \<le> 3 \<and> 3 \<in> row_id ` set (memories sample_memories)
           \<and> (\<forall>r\<in>set (memories sample_memories). row_id r \<le> 3)"
    by (simp add: sample_memories_def sqlite_int_def max_rowid_limit_def)
  have again: "fst (db_add_memory (at_time ''2024-01-02T09:00:00'') ''Fourth'' ''content 4''
            (snd (db_delete_memory 3 sample_memories)))
       = Inr 3"
    by (simp add: eval_defs)
  from add_memory_id_above_stored
          [of "at_time ''2024-01-02T09:00:00''" "''Fourth''" "''content 4''" sample_memories 3]
       nonsat h
  have "fst (db_add_memory (at_time ''2024-01-02T09:00:00'') ''Fourth'' ''content 4''
               sample_memories) = Inr 4
        \<and> 4 \<notin> row_id ` set (memories sample_memories)
        \<and> fst (db_delete_memory 3 sample_memories) = Inr True"
    by (auto simp: largest_rowid_def sample_memories_def)
  with nonsat h again show ?thesis
    by (simp add: list_all_iff)
qed

text \<open>
  C2 as stated fails on the empty store at add, delete(1), add: the first add is
  assigned 1, the delete removes that record, and the second add is assigned 1 again,
  which is neither greater than the id assigned before nor new.
\<close>

theorem deleted_id_reused_counterexample:
  "assigned [Add (at_time ''2024-01-02T09:00:00'') ''first'' ''a'',
             Delete 1,
             Add (at_time ''2024-01-02T09:00:05'') ''second'' ''b'']
     empty_db = [1, 1]
   \<and> fst (db_delete_memory 1
        (snd (db_add_memory (at_time ''2024-01-02T09:00:00'') ''first'' ''a'' empty_db)))
       = Inr True"
  by (simp add: eval_defs)

subsection \<open>Update\<close>

text \<open>
  C3. For every record \<open>r\<close> of the table and every text \<open>T\<close>, updating the id of
  \<open>r\<close> with only a title returns true and yields the table in which \<open>r\<close> has the
  title \<open>T\<close> and \<open>updated_at\<close> set to the clock's reading, with its id, content
  and \<open>created_at\<close> as before, and in which every other record is as before; with
  only a content, the same for the content.
\<close>

theorem update_one_field_frame:
  assumes "table_ok (memories db)" and "r \<in> set (memories db)"
  shows "db_update_memory e (row_id r) (Some T) None db =
           (Inr True,
            (ensure_conn db)\<lparr>memories :=
               map (\<lambda>x. if x = r then r\<lparr>title := T, updated_at := now e\<rparr> else x) (memories db)\<rparr>)
         \<and> db_update_memory e (row_id r) None (Some C) db =
           (Inr True,
            (ensure_conn db)\<lparr>memories :=
               map (\<lambda>x. if x = r then r\<lparr>content := C, updated_at := now e\<rparr> else x) (memories db)\<rparr>)"
  using assms table_ok_sqlite_int [OF assms] sql_update_one_row [OF assms]
  by (simp add: update_eq)

text \<open>The theorem on the sample store, at its second record.\<close>

theorem update_one_field_frame_witness:
  "table_ok (memories sample_memories)
   \<and> \<lparr>row_id = 2, title = ''Test Memory 2'', content = ''content 2'',
       created_at = ''2024-01-01T10:00:01'', updated_at = ''2024-01-01T10:00:01''\<rparr>
      \<in> set (memories sample_memories)
   \<and> db_update_memory (at_time ''2024-01-02T09:00:00'') 2 (Some ''Updated Title'') None
        sample_memories
     = (Inr True,
        \<lparr>conn = True,
         memories =
           [\<lparr>row_id = 1, title = ''Test Memory 1'', content = ''content 1'',
             created_at = ''2024-01-01T10:00:00'', updated_at = ''2024-01-01T10:00:00''\<rparr>,
            \<lparr>row_id = 2, title = ''Updated Title'', content = ''content 2'',
             created_at = ''2024-01-01T10:00:01'', updated_at = ''2024-01-02T09:00:00''\<rparr>,
            \<lparr>row_id = 3, title = ''Another Memory'', content = ''content 3'',
             created_at = ''2024-01-01T10:00:02'', updated_at = ''2024-01-01T10:00:02''\<rparr>]\<rparr>)"
proof -
  let ?r = "\<lparr>row_id = 2, title = ''Test Memory 2'', content = ''content 2'',
       created_at = ''2024-01-01T10:00:01'', updated_at = ''2024-01-01T10:00:01''\<rparr>"
  have ok: "table_ok (memories sample_memories)"
    by (rule table_ok_sample)
  have r: "?r \<in> set (memories sample_memories)"
    by (simp add: sample_memories_def)
  from update_one_field_frame [OF ok r, of "at_time ''2024-01-02T09:00:00''" "''Updated Title''"]
  have "db_update_memory (at_time ''2024-01-02T09:00:00'') 2 (Some ''Updated Title'') None
          sample_memories
        = (Inr True,
           (ensure_conn sample_memories)\<lparr>memories :=
              map (\<lambda>x. if x = ?r
                        then ?r\<lparr>title := ''Updated Title'', updated_at := now (at_time ''2024-01-02T09:00:00'')\<rparr>
                        else x)
                (memories sample_memories)\<rparr>)"
    by simp
  with ok r show ?thesis
    by (simp add: sample_memories_def at_time_def ensure_conn_def)
qed

text \<open>
  C4 (amended). For an id that is a 64-bit integer, \<^verbatim>\<open>update_memory\<close> of the store returns
  false exactly when no record has that id, and then the table is as before (no row is
  created); and when a record has the id and neither title nor content is given, it
  returns true and the table is as before, \<open>updated_at\<close> included.
\<close>

theorem update_false_iff_absent:
  assumes "sqlite_int i"
  shows "(fst (db_update_memory e i ttl cnt db) = Inr False \<longleftrightarrow> i \<notin> row_id ` set (memories db))
       \<and> (i \<notin> row_id ` set (memories db) \<longrightarrow>
            memories (snd (db_update_memory e i ttl cnt db)) = memories db)
       \<and> (i \<in> row_id ` set (memories db) \<longrightarrow>
            fst (db_update_memory e i None None db) = Inr True
            \<and> memories (snd (db_update_memory e i None None db)) = memories db)"
  using assms by (simp add: update_eq memories_ensure_conn)

text \<open>
  The theorem on the sample store, at the id 9999 that no record has and at the id 1 of
  its first record.
\<close>

theorem update_false_iff_absent_witness:
  "sqlite_int 9999 \<and> 9999 \<notin> row_id ` set (memories sample_memories)
   \<and> fst (db_update_memory (at_time ''2024-01-02T09:00:00'') 9999 (Some ''Non-existent'') None
            sample_memories) = Inr False
   \<and> memories (snd (db_update_memory (at_time ''2024-01-02T09:00:00'') 9999
                       (Some ''Non-existent'') None sample_memories))
       = memories sample_memories
   \<and> sqlite_int 1 \<and> 1 \<in> row_id ` set (memories sample_memories)
   \<and> fst (db_update_memory (at_time ''2024-01-02T09:00:00'') 1 None None sample_memories)
       = Inr True
   \<and> memories (snd (db_update_memory (at_time ''2024-01-02T09:00:00'') 1 None None
                       sample_memories))
       = memories sample_memories"
proof -
  have int: "sqlite_int 9999" "sqlite_int 1"
    by (simp_all add: sqlite_int_def max_rowid_limit_def)
  have ids: "9999 \<notin> row_id ` set (memories sample_memories)"
    "1 \<in> row_id ` set (memories sample_memories)"
    by (simp_all add: sample_memories_def)
  from update_false_iff_absent [OF int(1), of "at_time ''2024-01-02T09:00:00''"
         "Some ''Non-existent''" None sample_memories]
       update_false_iff_absent [OF int(2), of "at_time ''2024-01-02T09:00:00''" None None
         sample_memories]
       int ids
  show ?thesis by blast
qed

text \<open>
  C4 as stated fails at the id 9223372036854775808 on the sample store: no record has
  that id, yet the update does not return false; binding the id to the lookup raises
  \<^verbatim>\<open>OverflowError\<close>.
\<close>

theorem update_huge_id_counterexample:
  "9223372036854775808 \<notin> row_id ` set (memories sample_memories)
   \<and> fst (db_update_memory (at_time ''2024-01-02T09:00:00'') 9223372036854775808
            (Some ''Non-existent'') None sample_memories)
       = Inl (OverflowError ''Python int too large to convert to SQLite INTEGER'')
   \<and> fst (db_update_memory (at_time ''2024-01-02T09:00:00'') 9223372036854775808
            (Some ''Non-existent'') None sample_memories)
       \<noteq> Inr False"
  by (simp add: update_eq sqlite_int_def max_rowid_limit_def sample_memories_def too_large_def)

subsection \<open>Add, then read back\<close>

text \<open>
  C5. For every pair of texts (title, content), whenever \<^verbatim>\<open>add_memory\<close> returns an
  id, \<^verbatim>\<open>get_memory_by_id\<close> on that id yields a record with that id whose title and
  content are the inputs and whose \<open>created_at\<close> equals its \<open>updated_at\<close>; and the
  add does return an id unless the table holds the largest 64-bit row id.
\<close>

theorem add_then_get_by_id:
  assumes "table_ok (memories db)"
  shows "(\<forall>i db'. db_add_memory e t c db = (Inr i, db') \<longrightarrow>
            (\<exists>r. db_get_memory_by_id i db' = (Inr (Some r), db')
                  \<and> row_id r = i \<and> title r = t \<and> content r = c
                  \<and> created_at r = updated_at r))
         \<and> ((\<forall>r\<in>set (memories db). row_id r < max_rowid_limit) \<longrightarrow>
              (\<exists>i db'. db_add_memory e t c db = (Inr i, db')))"
proof (intro conjI allI impI)
  fix i db'
  assume add: "db_add_memory e t c db = (Inr i, db')"
  let ?r = "\<lparr>row_id = i, title = t, content = c, created_at = now e, updated_at = now e\<rparr>"
  from add have new: "new_rowid (rowid_candidates e) (memories db) = Some i"
    and db': "db' = (ensure_conn db)\<lparr>memories := insort_key row_id ?r (memories db)\<rparr>"
    by (auto simp: add_eq split: option.splits)
  from assms have "list_all (\<lambda>r. sqlite_int (row_id r)) (memories db)"
    by (simp add: table_ok_def)
  from new_rowid_sqlite_int [OF this new] have int: "sqlite_int i" .
  from new_rowid_fresh [OF new] have "row_id ?r \<notin> row_id ` set (memories db)"
    by simp
  from find_insort_fresh [OF this]
  have found: "find (\<lambda>x. row_id x = i) (insort_key row_id ?r (memories db)) = Some ?r"
    by simp
  have "ensure_conn db' = db'"
    using db' by (simp add: ensure_conn_def initialize_db_def)
  with int found db' have "db_get_memory_by_id i db' = (Inr (Some ?r), db')"
    by (simp add: get_by_id_eq)
  then show "\<exists>r. db_get_memory_by_id i db' = (Inr (Some r), db')
                  \<and> row_id r = i \<and> title r = t \<and> content r = c
                  \<and> created_at r = updated_at r"
    by (intro exI [of _ ?r]) simp
next
  assume "\<forall>r\<in>set (memories db). row_id r < max_rowid_limit"
  from new_rowid_not_saturated [OF this, of "rowid_candidates e"]
  show "\<exists>i db'. db_add_memory e t c db = (Inr i, db')"
    by (simp add: add_eq)
qed

text \<open>The theorem on the empty, closed store: the add returns 1 and the record reads back.\<close>

theorem add_then_get_by_id_witness:
  "table_ok (memories empty_db)
   \<and> (\<exists>db'. db_add_memory (at_time ''2024-01-02T09:00:00'') ''Test Title'' ''Test Content''
               empty_db = (Inr 1, db')
        \<and> (\<exists>r. db_get_memory_by_id 1 db' = (Inr (Some r), db')
                \<and> row_id r = 1 \<and> title r = ''Test Title'' \<and> content r = ''Test Content''
                \<and> created_at r = updated_at r))"
proof -
  let ?db' = "\<lparr>conn = True, memories =
            [\<lparr>row_id = 1, title = ''Test Title'', content = ''Test Content'',
              created_at = ''2024-01-02T09:00:00'', updated_at = ''2024-01-02T09:00:00''\<rparr>]\<rparr>"
  have ok: "table_ok (memories empty_db)"
    by (simp add: empty_db_def table_ok_def)
  have add: "db_add_memory (at_time ''2024-01-02T09:00:00'') ''Test Title'' ''Test Content''
               empty_db = (Inr 1, ?db')"
    by (simp add: eval_defs)
  from add_then_get_by_id [OF ok, of "at_time ''2024-01-02T09:00:00''"
         "''Test Title''" "''Test Content''"] add
  have "\<exists>r. db_get_memory_by_id 1 ?db' = (Inr (Some r), ?db')
                \<and> row_id r = 1 \<and> title r = ''Test Title'' \<and> content r = ''Test Content''
                \<and> created_at r = updated_at r"
    by blast
  with ok add show ?thesis by blast
qed

subsection \<open>Delete\<close>

lemma delete_absent:
  assumes "sqlite_int i" and "i \<notin> row_id ` set (memories db)"
  shows "db_delete_memory i db = (Inr False, ensure_conn db)"
  using assms by (simp add: delete_eq)

lemma absent_after_sql_delete: "i \<notin> row_id ` set (sql_delete i rows)"
  by (auto simp: sql_delete_def)

lemma absent_after_delete:
  "sqlite_int i \<Longrightarrow> i \<notin> row_id ` set (memories (snd (db_delete_memory i db)))"
  by (simp add: delete_eq memories_ensure_conn absent_after_sql_delete)

lemma repeated_delete_absent:
  assumes "sqlite_int i" and "i \<notin> row_id ` set (memories db)"
  shows "memories (((\<lambda>d. snd (db_delete_memory i d)) ^^ n) db) = memories db"
  using assms by (induction n) (simp_all add: delete_eq memories_ensure_conn)

text \<open>
  C6 (amended). For every id that is a 64-bit integer: \<^verbatim>\<open>delete_memory\<close> returns
  whether a record has the id and removes the records with it and no other; after it,
  \<^verbatim>\<open>get_memory_by_id\<close> of the id yields none; a second delete returns false and
  leaves the table as the first left it; and when no record has the id, a delete after
  any number \<open>n\<close> of deletes of it returns false, and the table is still the one
  before them.
\<close>

theorem delete_then_get_none:
  assumes "sqlite_int i"
  shows "fst (db_delete_memory i db) = Inr (i \<in> row_id ` set (memories db))
       \<and> memories (snd (db_delete_memory i db)) = filter (\<lambda>r. row_id r \<noteq> i) (memories db)
       \<and> fst (db_get_memory_by_id i (snd (db_delete_memory i db))) = Inr None
       \<and> fst (db_delete_memory i (snd (db_delete_memory i db))) = Inr False
       \<and> memories (snd (db_delete_memory i (snd (db_delete_memory i db))))
           = memories (snd (db_delete_memory i db))
       \<and> (i \<notin> row_id ` set (memories db) \<longrightarrow>
            (\<forall>n. fst (db_delete_memory i (((\<lambda>d. snd (db_delete_memory i d)) ^^ n) db)) = Inr False
                 \<and> memories (((\<lambda>d. snd (db_delete_memory i d)) ^^ n) db) = memories db))"
proof (intro conjI impI allI)
  show "fst (db_delete_memory i db) = Inr (i \<in> row_id ` set (memories db))"
    using assms by (simp add: delete_eq)
  have "filter (\<lambda>r. row_id r \<noteq> i) (memories db) = memories db"
    if "i \<notin> row_id ` set (memories db)"
    using that by (auto simp: filter_id_conv)
  then show "memories (snd (db_delete_memory i db)) = filter (\<lambda>r. row_id r \<noteq> i) (memories db)"
    using assms by (simp add: delete_eq memories_ensure_conn sql_delete_def)
  from absent_after_delete [OF assms, of db]
  show "fst (db_get_memory_by_id i (snd (db_delete_memory i db))) = Inr None"
    using assms by (simp add: get_by_id_eq find_id_None)
  from delete_absent [OF assms absent_after_delete [OF assms, of db]]
  show "fst (db_delete_memory i (snd (db_delete_memory i db))) = Inr False"
    and "memories (snd (db_delete_memory i (snd (db_delete_memory i db))))
           = memories (snd (db_delete_memory i db))"
    by (simp_all add: memories_ensure_conn)
next
  fix n
  assume absent: "i \<notin> row_id ` set (memories db)"
  from repeated_delete_absent [OF assms absent]
  show mem: "memories (((\<lambda>d. snd (db_delete_memory i d)) ^^ n) db) = memories db" .
  with absent have "i \<notin> row_id ` set (memories (((\<lambda>d. snd (db_delete_memory i d)) ^^ n) db))"
    by simp
  from delete_absent [OF assms this]
  show "fst (db_delete_memory i (((\<lambda>d. snd (db_delete_memory i d)) ^^ n) db)) = Inr False"
    by simp
qed

text \<open>
  The theorem on the sample store: at the id 1 of its first record, which the first
  delete removes, and at the id 9999 that no record has, deleted three times over.
\<close>

theorem delete_then_get_none_witness:
  "sqlite_int 1
   \<and> fst (db_delete_memory 1 sample_memories) = Inr True
   \<and> fst (db_get_memory_by_id 1 (snd (db_delete_memory 1 sample_memories))) = Inr None
   \<and> fst (db_delete_memory 1 (snd (db_delete_memory 1 sample_memories))) = Inr False
   \<and> sqlite_int 9999 \<and> 9999 \<notin> row_id ` set (memories sample_memories)
   \<and> fst (db_delete_memory 9999
            (snd (db_delete_memory 9999 (snd (db_delete_memory 9999 sample_memories)))))
       = Inr False"
proof -
  have int: "sqlite_int 1" "sqlite_int 9999"
    by (simp_all add: sqlite_int_def max_rowid_limit_def)
  have del: "fst (db_delete_memory 1 sample_memories) = Inr True"
    by (simp add: eval_defs)
  have absent: "9999 \<notin> row_id ` set (memories sample_memories)"
    by (simp add: sample_memories_def)
  from delete_then_get_none [OF int(2), of sample_memories] absent
  have "fst (db_delete_memory 9999
               (((\<lambda>d. snd (db_delete_memory 9999 d)) ^^ 2) sample_memories)) = Inr False"
    by blast
  then have twice: "fst (db_delete_memory 9999
            (snd (db_delete_memory 9999 (snd (db_delete_memory 9999 sample_memories)))))
       = Inr False"
    by (simp add: numeral_2_eq_2)
  from delete_then_get_none [OF int(1), of sample_memories] int del absent twice
  show ?thesis by blast
qed

text \<open>
  C6 as stated fails at the id 9223372036854775808 on the sample store: the delete, the
  lookup after it and the second delete all raise \<^verbatim>\<open>OverflowError\<close>, so the
  lookup does not yield none and the second delete does not return false.
\<close>

theorem delete_huge_id_counterexample:
  "fst (db_delete_memory 9223372036854775808 sample_memories)
     = Inl (OverflowError ''Python int too large to convert to SQLite INTEGER'')
   \<and> fst (db_get_memory_by_id 9223372036854775808
            (snd (db_delete_memory 9223372036854775808 sample_memories)))
       = Inl (OverflowError ''Python int too large to convert to SQLite INTEGER'')
   \<and> fst (db_get_memory_by_id 9223372036854775808
            (snd (db_delete_memory 9223372036854775808 sample_memories)))
       \<noteq> Inr None
   \<and> fst (db_delete_memory 9223372036854775808
            (snd (db_delete_memory 9223372036854775808 sample_memories)))
       \<noteq> Inr False"
  by (simp add: delete_eq get_by_id_eq sqlite_int_def max_rowid_limit_def too_large_def)

subsection \<open>Listing\<close>

lemma fold_append_lines: "fold (\<lambda>m result. result @ f m) ms acc = acc @ concat (map f ms)"
  by (induction ms arbitrary: acc) simp_all

text \<open>
  C8. For every table, \<^verbatim>\<open>list_memories\<close> of the store returns the (id, title)
  projection of each stored record, one per record, which is the empty list when there
  is none; and the tool \<^verbatim>\<open>list_memories\<close> renders \<^verbatim>\<open>No memories stored yet.\<close>
  for the empty table and otherwise the header \<^verbatim>\<open>Stored Memories:\<close> and two
  newlines followed by one line \<^verbatim>\<open>ID: {id} - {title}\<close> per record.
\<close>

theorem list_memories_renders_every_record:
  "fst (db_list_memories db) = Inr (map (\<lambda>r. (row_id r, title r)) (memories db))
   \<and> (memories db = [] \<longrightarrow> fst (db_list_memories db) = Inr []
        \<and> fst (list_memories db) = ''No memories stored yet.'')
   \<and> (memories db \<noteq> [] \<longrightarrow>
        fst (list_memories db) =
          ''Stored Memories:'' @ [CHR 0x0A, CHR 0x0A]
          @ concat (map (\<lambda>r. ''ID: '' @ str_int (row_id r) @ '' - '' @ title r @ [CHR 0x0A])
                     (memories db)))"
  by (simp add: list_eq list_memories_def fold_append_lines list_line_def comp_def)

text \<open>The theorem on the sample store and on the empty store.\<close>

theorem list_memories_renders_every_record_witness:
  "memories sample_memories \<noteq> []
   \<and> fst (list_memories sample_memories)
     = ''Stored Memories:'' @ [CHR 0x0A, CHR 0x0A]
        @ ''ID: 1 - Test Memory 1'' @ [CHR 0x0A]
        @ ''ID: 2 - Test Memory 2'' @ [CHR 0x0A]
        @ ''ID: 3 - Another Memory'' @ [CHR 0x0A]
   \<and> memories empty_db = []
   \<and> fst (list_memories empty_db) = ''No memories stored yet.''"
  using list_memories_renders_every_record [of sample_memories]
    list_memories_renders_every_record [of empty_db]
  by (simp add: str_int_def digit_char_def empty_db_def sample_memories_def)

subsection \<open>Lookup by id and by title\<close>

lemma find_in_table:
  assumes "table_ok rows" and "r \<in> set rows"
  shows "find (\<lambda>x. row_id x = row_id r) rows = Some r"
proof -
  from assms(1) have d: "distinct (map row_id rows)" by (simp add: table_ok_def)
  from assms(2) obtain x where x: "find (\<lambda>x. row_id x = row_id r) rows = Some x"
    by (cases "find (\<lambda>x. row_id x = row_id r) rows") (auto simp: find_None_iff)
  then have "x \<in> set rows" and "row_id x = row_id r"
    by (auto simp: find_Some_iff)
  with same_id_same_row [OF d assms(2)] x show ?thesis by simp
qed

lemma get_memory_by_id_value:
  "get_memory (Some (IntValue i)) ttl db =
     (if sqlite_int i
      then (case find (\<lambda>r. row_id r = i) (memories db) of
              Some m \<Rightarrow> ''Title: '' @ title m @ [CHR 0x0A, CHR 0x0A] @ ''Content: '' @ content m
            | None \<Rightarrow> ''Memory not found.'')
      else ''Error retrieving memory: Python int too large to convert to SQLite INTEGER'',
      ensure_conn db)"
  by (simp add: get_memory_def py_int_def get_by_id_eq render_memory_def too_large_def
        split: option.splits)

text \<open>
  C9 (amended). When \<^verbatim>\<open>get_memory\<close> is invoked with both \<^verbatim>\<open>memory_id\<close> and
  \<^verbatim>\<open>title\<close>, the title plays no part: the result is the one for the
  \<^verbatim>\<open>memory_id\<close> alone, in the tool function and through the dispatcher. For a
  \<^verbatim>\<open>memory_id\<close> that is a 64-bit integer the lookup is by that id: the response
  renders the record with the id when the table has one, and is
  \<^verbatim>\<open>Memory not found.\<close> when no record has it, whatever the titles in the table.
  For an integer outside the 64-bit range the response is the text
  \<^verbatim>\<open>Error retrieving memory: Python int too large to convert to SQLite INTEGER\<close>.
\<close>

theorem get_memory_prefers_id:
  "get_memory (Some v) (Some t) db = get_memory (Some v) None db
   \<and> (arg_memory_id a = Some (Some v) \<longrightarrow>
        handle_call_tool e ''get_memory'' (Some a) db
          = handle_call_tool e ''get_memory'' (Some (a\<lparr>arg_title := None\<rparr>)) db)
   \<and> (arg_memory_id a = Some (Some (IntValue i)) \<and> sqlite_int i \<longrightarrow>
        handle_call_tool e ''get_memory'' (Some a) db
          = (Inr (case find (\<lambda>r. row_id r = i) (memories db) of
                    Some m \<Rightarrow> ''Title: '' @ title m @ [CHR 0x0A, CHR 0x0A]
                               @ ''Content: '' @ content m
                  | None \<Rightarrow> ''Memory not found.''),
             ensure_conn db))
   \<and> (arg_memory_id a = Some (Some (IntValue i)) \<and> sqlite_int i
        \<and> i \<notin> row_id ` set (memories db) \<longrightarrow>
        fst (handle_call_tool e ''get_memory'' (Some a) db) = Inr ''Memory not found.'')
   \<and> (table_ok (memories db) \<and> r \<in> set (memories db)
        \<and> arg_memory_id a = Some (Some (IntValue (row_id r))) \<longrightarrow>
        fst (handle_call_tool e ''get_memory'' (Some a) db)
          = Inr (''Title: '' @ title r @ [CHR 0x0A, CHR 0x0A] @ ''Content: '' @ content r))
   \<and> (arg_memory_id a = Some (Some (IntValue i)) \<and> \<not> sqlite_int i \<longrightarrow>
        fst (handle_call_tool e ''get_memory'' (Some a) db)
          = Inr ''Error retrieving memory: Python int too large to convert to SQLite INTEGER'')"
proof (intro conjI impI)
  show "get_memory (Some v) (Some t) db = get_memory (Some v) None db"
    by (simp add: get_memory_def)
next
  assume "arg_memory_id a = Some (Some v)"
  then show "handle_call_tool e ''get_memory'' (Some a) db
          = handle_call_tool e ''get_memory'' (Some (a\<lparr>arg_title := None\<rparr>)) db"
    by (simp add: handle_call_tool_def not_arguments_def get_arg_memory_id_def get_memory_def)
next
  assume "arg_memory_id a = Some (Some (IntValue i)) \<and> sqlite_int i"
  then show "handle_call_tool e ''get_memory'' (Some a) db
          = (Inr (case find (\<lambda>r. row_id r = i) (memories db) of
                    Some m \<Rightarrow> ''Title: '' @ title m @ [CHR 0x0A, CHR 0x0A]
                               @ ''Content: '' @ content m
                  | None \<Rightarrow> ''Memory not found.''),
             ensure_conn db)"
    by (simp add: handle_call_tool_def not_arguments_def get_arg_memory_id_def
          text_response_def get_memory_by_id_value)
next
  assume "arg_memory_id a = Some (Some (IntValue i)) \<and> sqlite_int i
        \<and> i \<notin> row_id ` set (memories db)"
  then show "fst (handle_call_tool e ''get_memory'' (Some a) db) = Inr ''Memory not found.''"
    by (simp add: handle_call_tool_def not_arguments_def get_arg_memory_id_def
          text_response_def get_memory_by_id_value find_id_None [THEN iffD2])
next
  assume h: "table_ok (memories db) \<and> r \<in> set (memories db)
        \<and> arg_memory_id a = Some (Some (IntValue (row_id r)))"
  then have "find (\<lambda>x. row_id x = row_id r) (memories db) = Some r"
    and "sqlite_int (row_id r)"
    using find_in_table [of "memories db" r] table_ok_sqlite_int [of "memories db" r]
    by simp_all
  with h show "fst (handle_call_tool e ''get_memory'' (Some a) db)
          = Inr (''Title: '' @ title r @ [CHR 0x0A, CHR 0x0A] @ ''Content: '' @ content r)"
    by (simp add: handle_call_tool_def not_arguments_def get_arg_memory_id_def
          text_response_def get_memory_by_id_value)
next
  assume "arg_memory_id a = Some (Some (IntValue i)) \<and> \<not> sqlite_int i"
  then show "fst (handle_call_tool e ''get_memory'' (Some a) db)
          = Inr ''Error retrieving memory: Python int too large to convert to SQLite INTEGER''"
    by (simp add: handle_call_tool_def not_arguments_def get_arg_memory_id_def
          text_response_def get_memory_by_id_value)
qed

text \<open>
  The theorem on the sample store at \<^verbatim>\<open>{"memory_id": 7, "title": "Test Memory 2"}\<close>,
  where a lookup by that title finds the second record and the call answers
  \<^verbatim>\<open>Memory not found.\<close>, and at
  \<^verbatim>\<open>{"memory_id": 1, "title": "Test Memory 2"}\<close>, where the call answers with the
  first record.
\<close>

theorem get_memory_prefers_id_witness:
  "sqlite_int 7
   \<and> 7 \<notin> row_id ` set (memories sample_memories)
   \<and> fst (get_memory None (Some ''Test Memory 2'') sample_memories)
       = ''Title: Test Memory 2'' @ [CHR 0x0A, CHR 0x0A] @ ''Content: content 2''
   \<and> fst (handle_call_tool (at_time ''2024-01-02T09:00:00'') ''get_memory''
            (Some \<lparr>arg_memory_id = Some (Some (IntValue 7)),
                   arg_title = Some ''Test Memory 2'', arg_content = None, arg_others = []\<rparr>)
            sample_memories)
       = Inr ''Memory not found.''
   \<and> table_ok (memories sample_memories)
   \<and> fst (handle_call_tool (at_time ''2024-01-02T09:00:00'') ''get_memory''
            (Some \<lparr>arg_memory_id = Some (Some (IntValue 1)),
                   arg_title = Some ''Test Memory 2'', arg_content = None, arg_others = []\<rparr>)
            sample_memories)
       = Inr (''Title: Test Memory 1'' @ [CHR 0x0A, CHR 0x0A] @ ''Content: content 1'')"
proof -
  let ?a = "\<lparr>arg_memory_id = Some (Some (IntValue 7)), arg_title = Some ''Test Memory 2'',
             arg_content = None, arg_others = []\<rparr>"
  let ?b = "\<lparr>arg_memory_id = Some (Some (IntValue 1)), arg_title = Some ''Test Memory 2'',
             arg_content = None, arg_others = []\<rparr>"
  let ?r = "\<lparr>row_id = 1, title = ''Test Memory 1'', content = ''content 1'',
          created_at = ''2024-01-01T10:00:00'', updated_at = ''2024-01-01T10:00:00''\<rparr>"
  have h: "arg_memory_id ?a = Some (Some (IntValue 7)) \<and> sqlite_int 7
           \<and> 7 \<notin> row_id ` set (memories sample_memories)"
    by (simp add: sqlite_int_def max_rowid_limit_def sample_memories_def)
  have t: "fst (get_memory None (Some ''Test Memory 2'') sample_memories)
             = ''Title: Test Memory 2'' @ [CHR 0x0A, CHR 0x0A] @ ''Content: content 2''"
    by (simp add: get_memory_def get_by_title_eq render_memory_def sample_memories_def)
  have k: "table_ok (memories sample_memories) \<and> ?r \<in> set (memories sample_memories)
           \<and> arg_memory_id ?b = Some (Some (IntValue (row_id ?r)))"
    by (simp add: table_ok_sample) (simp add: sample_memories_def)
  from get_memory_prefers_id
         [of "IntValue 7" "''Test Memory 2''" sample_memories ?a
             "at_time ''2024-01-02T09:00:00''" 7] h
  have missing: "fst (handle_call_tool (at_time ''2024-01-02T09:00:00'') ''get_memory'' (Some ?a)
               sample_memories)
          = Inr ''Memory not found.''"
    by blast
  from get_memory_prefers_id
         [of "IntValue 1" "''Test Memory 2''" sample_memories ?b
             "at_time ''2024-01-02T09:00:00''" 1 ?r] k
  have "fst (handle_call_tool (at_time ''2024-01-02T09:00:00'') ''get_memory'' (Some ?b)
               sample_memories)
          = Inr (''Title: '' @ title ?r @ [CHR 0x0A, CHR 0x0A] @ ''Content: '' @ content ?r)"
    by blast
  then have found: "fst (handle_call_tool (at_time ''2024-01-02T09:00:00'') ''get_memory''
               (Some ?b) sample_memories)
          = Inr (''Title: Test Memory 1'' @ [CHR 0x0A, CHR 0x0A] @ ''Content: content 1'')"
    by simp
  from h t k missing found show ?thesis by blast
qed

text \<open>
  C9 as stated fails at \<^verbatim>\<open>{"memory_id": 9223372036854775808, "title": "Test Memory 2"}\<close>
  on the sample store: no record has that id, yet the response is not
  \<^verbatim>\<open>Memory not found.\<close>, because binding the id raises \<^verbatim>\<open>OverflowError\<close>.
\<close>

theorem get_memory_huge_id_counterexample:
  "9223372036854775808 \<notin> row_id ` set (memories sample_memories)
   \<and> fst (handle_call_tool (at_time ''2024-01-02T09:00:00'') ''get_memory''
            (Some \<lparr>arg_memory_id = Some (Some (IntValue 9223372036854775808)),
                   arg_title = Some ''Test Memory 2'', arg_content = None, arg_others = []\<rparr>)
            sample_memories)
       = Inr ''Error retrieving memory: Python int too large to convert to SQLite INTEGER''
   \<and> fst (handle_call_tool (at_time ''2024-01-02T09:00:00'') ''get_memory''
            (Some \<lparr>arg_memory_id = Some (Some (IntValue 9223372036854775808)),
                   arg_title = Some ''Test Memory 2'', arg_content = None, arg_others = []\<rparr>)
            sample_memories)
       \<noteq> Inr ''Memory not found.''"
  by (simp add: handle_call_tool_def not_arguments_def get_arg_memory_id_def text_response_def
        get_memory_by_id_value sqlite_int_def max_rowid_limit_def sample_memories_def)

subsection \<open>The reads\<close>

text \<open>
  C10. \<^verbatim>\<open>get_memory_by_id\<close>, \<^verbatim>\<open>get_memory_by_title\<close> and
  \<^verbatim>\<open>list_memories\<close> of the store leave the table as it was, for every table and
  every input, also when the call raises: the same records with the same fields.
\<close>

theorem reads_leave_table_unchanged:
  "memories (snd (db_get_memory_by_id i db)) = memories db
   \<and> memories (snd (db_get_memory_by_title t db)) = memories db
   \<and> memories (snd (db_list_memories db)) = memories db"
  by (simp add: get_by_id_eq get_by_title_eq list_eq memories_ensure_conn)

text \<open>The theorem on the sample store after \<^verbatim>\<open>close\<close>, where each read reconnects.\<close>

theorem reads_leave_table_unchanged_witness:
  "memories (snd (db_get_memory_by_id 1 (close sample_memories))) = memories sample_memories
   \<and> memories (snd (db_get_memory_by_title ''Test Memory 1'' (close sample_memories)))
       = memories sample_memories
   \<and> memories (snd (db_list_memories (close sample_memories))) = memories sample_memories"
  using reads_leave_table_unchanged [of 1 "close sample_memories" "''Test Memory 1''"]
  by (simp add: close_def)

end
